theory Spec2Isabelle
  imports Main "HOL-Library.Word"
begin

section \<open>The auth service: data model\<close>

text \<open>
  The auth service (the file with \<open>registerHandler\<close>, \<open>loginHandler\<close>,
  \<open>jwkHandler\<close> and \<open>healthCheckHandler\<close>) is embedded handler by handler.
  Everything the handlers call outside the repository (bcrypt, the jwk and jwt
  libraries, the validator behind gin's binding, the pgx pool, the RSA key
  generator) is a field of the record \<open>env\<close>: the theorems hold for every
  behaviour of these libraries.
\<close>

type_synonym UUID = "128 word"

text \<open>A Go \<open>error\<close> value is represented by its message.\<close>

type_synonym error = string

record User =
  ID :: UUID
  Username :: string
  Password :: string

record RegisterRequest =
  reg_Email :: string
  reg_Password :: string

record loginRequest =
  login_Email :: string
  login_Password :: string

record rsa_PublicKey =
  N :: nat
  E :: nat

record rsa_PrivateKey =
  PublicKey :: rsa_PublicKey
  D :: nat
  Primes :: "nat list"

text \<open>The values the handlers put into a \<open>gin.H\<close> or into the token's claims.\<close>

datatype json = JStr string | JUUID UUID | JInt int | JStrs "string list"

type_synonym gin_H = "string \<rightharpoonup> json"

record jwt_Token =
  Method :: string
  Header :: gin_H
  Claims :: gin_H

text \<open>
  What \<open>c.JSON\<close> is given as its second argument: a \<open>gin.H\<close>, or the key set
  (a \<open>jwk.Set\<close>, the keys in the order they were added).
\<close>

datatype 'k body = H gin_H | KeySet "'k list"

record 'k response =
  status :: nat
  body :: "'k body"

definition StatusOK :: nat where "StatusOK = 200"
definition StatusCreated :: nat where "StatusCreated = 201"
definition StatusBadRequest :: nat where "StatusBadRequest = 400"
definition StatusUnauthorized :: nat where "StatusUnauthorized = 401"
definition StatusInternalServerError :: nat where "StatusInternalServerError = 500"

definition JSON :: "nat \<Rightarrow> 'k body \<Rightarrow> 'k response" where
  "JSON code obj = \<lparr>status = code, body = obj\<rparr>"

text \<open>
  The error of \<open>ShouldBindJSON\<close>: the JSON decoder refused the body (its message),
  or the validator found fields that fail a tag of their \<open>binding\<close>
  (field and tag, one entry per failing field, in the order of the struct).
\<close>

datatype bind_error = DecodeError string | ValidationErrors "(string \<times> string) list"

text \<open>
  A request body as the JSON decoder leaves it: refused with a message, or
  decoded into the request struct (a missing field is the empty string).
\<close>

type_synonym 'r json_body = "string + 'r"

text \<open>
  The process-wide variables \<open>dbPool\<close>, \<open>rsaKey\<close>, \<open>rsaKeyJWK\<close> and
  \<open>jwkKeySet\<close>. \<open>'db\<close> is the content of the credential store behind the pool,
  \<open>'k\<close> the library's \<open>jwk.Key\<close>.
\<close>

record ('db, 'k) globals =
  dbPool :: 'db
  rsaKey :: rsa_PrivateKey
  rsaKeyJWK :: 'k
  jwkKeySet :: "'k list"

text \<open>
  What differs from one request to the next without being part of the request:
  the clock, the UUID generator and the random source.
\<close>

record ctx =
  time_Now :: int
  uuid_New :: UUID
  rand_Reader :: string

text \<open>The calls a handler makes to the hashing library, the store and the signer, in order.\<close>

datatype event =
    EvHash string
  | EvInsert User
  | EvSelect string
  | EvCompare string string
  | EvSign
  | EvPing

record ('db, 'k) env =
  Getenv :: "string \<Rightarrow> string"
  pgxpool_Connect :: "string \<Rightarrow> error + 'db"
  rsa_GenerateKey :: "string \<Rightarrow> nat \<Rightarrow> error + rsa_PrivateKey"
  jwk_New :: "rsa_PublicKey \<Rightarrow> error + 'k"
  jwk_AssignKeyID :: "'k \<Rightarrow> 'k"
  jwk_Set :: "'k \<Rightarrow> string \<Rightarrow> string \<Rightarrow> 'k"
  jwk_KeyID :: "'k \<Rightarrow> string"
  bcrypt_DefaultCost :: nat
  bcrypt_GenerateFromPassword :: "string \<Rightarrow> string \<Rightarrow> nat \<Rightarrow> error + string"
  bcrypt_CompareHashAndPassword :: "string \<Rightarrow> string \<Rightarrow> error option"
  Exec_INSERT_users :: "'db \<Rightarrow> UUID \<Rightarrow> string \<Rightarrow> string \<Rightarrow> error + 'db"
  QueryRow_SELECT_users :: "'db \<Rightarrow> string \<Rightarrow> error + User"
  Ping :: "'db \<Rightarrow> error option"
  jwt_SignedString :: "jwt_Token \<Rightarrow> rsa_PrivateKey \<Rightarrow> error + string"
  validator_email :: "string \<Rightarrow> bool"
  utf8_RuneCountInString :: "string \<Rightarrow> nat"
  err_Error :: "bind_error \<Rightarrow> string"

record ('db, 'k) result =
  resp :: "'k response"
  trace :: "event list"
  st :: "('db, 'k) globals"

section \<open>Binding and validation\<close>

text \<open>
  The tags of a field are tried in the order written and the first that fails is
  reported: \<open>required\<close> fails on the empty string, \<open>email\<close> is the validator's
  own test, \<open>min=8\<close> compares the number of runes with 8.
\<close>

definition validate_Email :: "('db, 'k) env \<Rightarrow> string \<Rightarrow> string \<Rightarrow> (string \<times> string) list" where
  "validate_Email env field v =
     (if v = [] then [(field, ''required'')]
      else if \<not> validator_email env v then [(field, ''email'')]
      else [])"

definition validate_Password :: "('db, 'k) env \<Rightarrow> string \<Rightarrow> string \<Rightarrow> (string \<times> string) list" where
  "validate_Password env field v =
     (if v = [] then [(field, ''required'')]
      else if utf8_RuneCountInString env v < 8 then [(field, ''min'')]
      else [])"

definition ShouldBindJSON_RegisterRequest ::
  "('db, 'k) env \<Rightarrow> RegisterRequest json_body \<Rightarrow> bind_error + RegisterRequest" where
  "ShouldBindJSON_RegisterRequest env b =
     (case b of
        Inl msg \<Rightarrow> Inl (DecodeError msg)
      | Inr req \<Rightarrow>
          (case validate_Email env ''RegisterRequest.Email'' (reg_Email req)
                @ validate_Password env ''RegisterRequest.Password'' (reg_Password req) of
             [] \<Rightarrow> Inr req
           | e # es \<Rightarrow> Inl (ValidationErrors (e # es))))"

definition ShouldBindJSON_loginRequest ::
  "('db, 'k) env \<Rightarrow> loginRequest json_body \<Rightarrow> bind_error + loginRequest" where
  "ShouldBindJSON_loginRequest env b =
     (case b of
        Inl msg \<Rightarrow> Inl (DecodeError msg)
      | Inr req \<Rightarrow>
          (case validate_Email env ''loginRequest.Email'' (login_Email req)
                @ validate_Password env ''loginRequest.Password'' (login_Password req) of
             [] \<Rightarrow> Inr req
           | e # es \<Rightarrow> Inl (ValidationErrors (e # es))))"

section \<open>Startup\<close>

definition jwk_NewSet :: "'k list" where
  "jwk_NewSet = []"

definition jwk_Add :: "'k list \<Rightarrow> 'k \<Rightarrow> 'k list" where
  "jwk_Add ks k = (if k \<in> set ks then ks else ks @ [k])"

datatype ('db, 'k) boot = Fatal string | Serving "('db, 'k) globals"

text \<open>
  \<open>main\<close> up to the point where the router starts: the pool, the key pair, the
  JWK of the public half with its key id and \<open>alg\<close>, the key set. The errors of
  \<open>jwk.AssignKeyID\<close> and of \<open>Set\<close> are dropped by the source, so both are
  functions on the key. The argument \<open>rnd\<close> is what \<open>rand.Reader\<close> yields.
\<close>

definition main :: "('db, 'k) env \<Rightarrow> string \<Rightarrow> ('db, 'k) boot" where
  "main env rnd =
     (case pgxpool_Connect env (Getenv env ''DATABASE_URL'') of
        Inl err \<Rightarrow> Fatal ''Unable to connect to database''
      | Inr pool \<Rightarrow>
          (case rsa_GenerateKey env rnd 2048 of
             Inl err \<Rightarrow> Fatal ''Error generating RSA key''
           | Inr key \<Rightarrow>
               (case jwk_New env (PublicKey key) of
                  Inl err \<Rightarrow> Fatal ''Error creating JWK from RSA key''
                | Inr k0 \<Rightarrow>
                    (let k1 = jwk_AssignKeyID env k0;
                         k2 = jwk_Set env k1 ''alg'' ''RS256''
                     in Serving \<lparr>dbPool = pool, rsaKey = key, rsaKeyJWK = k2,
                                 jwkKeySet = jwk_Add jwk_NewSet k2\<rparr>))))"

section \<open>The handlers\<close>

definition registerHandler ::
  "('db, 'k) env \<Rightarrow> ('db, 'k) globals \<Rightarrow> ctx \<Rightarrow> RegisterRequest json_body \<Rightarrow> ('db, 'k) result" where
  "registerHandler env s c b =
     (case ShouldBindJSON_RegisterRequest env b of
        Inl err \<Rightarrow>
          \<lparr>resp = JSON StatusBadRequest (H [''error'' \<mapsto> JStr (err_Error env err)]),
           trace = [], st = s\<rparr>
      | Inr req \<Rightarrow>
          (case bcrypt_GenerateFromPassword env (rand_Reader c) (reg_Password req)
                  (bcrypt_DefaultCost env) of
             Inl err \<Rightarrow>
               \<lparr>resp = JSON StatusInternalServerError
                         (H [''error'' \<mapsto> JStr ''Failed to hash password'']),
                trace = [EvHash (reg_Password req)], st = s\<rparr>
           | Inr hashedPassword \<Rightarrow>
               (let newUser = \<lparr>ID = uuid_New c, Username = reg_Email req,
                                Password = hashedPassword\<rparr>
                in case Exec_INSERT_users env (dbPool s) (ID newUser) (Username newUser)
                          (Password newUser) of
                     Inl err \<Rightarrow>
                       \<lparr>resp = JSON StatusInternalServerError
                                 (H [''error'' \<mapsto> JStr ''Failed to register user'']),
                        trace = [EvHash (reg_Password req), EvInsert newUser], st = s\<rparr>
                   | Inr db' \<Rightarrow>
                       \<lparr>resp = JSON StatusCreated
                                 (H [''id'' \<mapsto> JUUID (ID newUser),
                                     ''email'' \<mapsto> JStr (Username newUser)]),
                        trace = [EvHash (reg_Password req), EvInsert newUser],
                        st = s\<lparr>dbPool := db'\<rparr>\<rparr>)))"

text \<open>
  The clock counts nanoseconds since the Unix epoch; \<open>Unix\<close> rounds down to
  seconds, and \<open>time.Hour\<close> is a number of nanoseconds.
\<close>

definition time_Hour :: int where
  "time_Hour = 3600 * 1000000000"

definition time_Add :: "int \<Rightarrow> int \<Rightarrow> int" where
  "time_Add t d = t + d"

definition time_Unix :: "int \<Rightarrow> int" where
  "time_Unix t = t div 1000000000"

text \<open>
  \<open>jwt.NewWithClaims\<close> builds the token from the signing method and the claims;
  its header starts as the library sets it, with \<open>typ\<close> and \<open>alg\<close>.
\<close>

definition SigningMethodRS256 :: string where
  "SigningMethodRS256 = ''RS256''"

definition jwt_NewWithClaims :: "string \<Rightarrow> gin_H \<Rightarrow> jwt_Token" where
  "jwt_NewWithClaims method cl =
     \<lparr>Method = method, Header = [''typ'' \<mapsto> JStr ''JWT'', ''alg'' \<mapsto> JStr method],
      Claims = cl\<rparr>"

definition loginHandler ::
  "('db, 'k) env \<Rightarrow> ('db, 'k) globals \<Rightarrow> ctx \<Rightarrow> loginRequest json_body \<Rightarrow> ('db, 'k) result" where
  "loginHandler env s c b =
     (case ShouldBindJSON_loginRequest env b of
        Inl err \<Rightarrow>
          \<lparr>resp = JSON StatusBadRequest (H [''error'' \<mapsto> JStr (err_Error env err)]),
           trace = [], st = s\<rparr>
      | Inr req \<Rightarrow>
          (case QueryRow_SELECT_users env (dbPool s) (login_Email req) of
             Inl err \<Rightarrow>
               \<lparr>resp = JSON StatusUnauthorized
                         (H [''error'' \<mapsto> JStr ''Invalid email or password'']),
                trace = [EvSelect (login_Email req)], st = s\<rparr>
           | Inr user \<Rightarrow>
               (case bcrypt_CompareHashAndPassword env (Password user) (login_Password req) of
                  Some err \<Rightarrow>
                    \<lparr>resp = JSON StatusUnauthorized
                              (H [''error'' \<mapsto> JStr ''Invalid email or password'']),
                     trace = [EvSelect (login_Email req),
                              EvCompare (Password user) (login_Password req)],
                     st = s\<rparr>
                | None \<Rightarrow>
                    (let token = jwt_NewWithClaims SigningMethodRS256
                                   [''sub'' \<mapsto> JUUID (ID user),
                                    ''email'' \<mapsto> JStr (Username user),
                                    ''roles'' \<mapsto> JStrs [''user''],
                                    ''exp'' \<mapsto> JInt (time_Unix
                                       (time_Add (time_Now c) (time_Hour * 24)))];
                         token = token\<lparr>Header :=
                                   (Header token)(''kid'' \<mapsto> JStr (jwk_KeyID env (rsaKeyJWK s)))\<rparr>;
                         tr = [EvSelect (login_Email req),
                               EvCompare (Password user) (login_Password req), EvSign]
                     in case jwt_SignedString env token (rsaKey s) of
                          Inl err \<Rightarrow>
                            \<lparr>resp = JSON StatusInternalServerError
                                      (H [''error'' \<mapsto> JStr ''Failed to create token'']),
                             trace = tr, st = s\<rparr>
                        | Inr tokenString \<Rightarrow>
                            \<lparr>resp = JSON StatusOK (H [''token'' \<mapsto> JStr tokenString]),
                             trace = tr, st = s\<rparr>))))"

definition jwkHandler :: "('db, 'k) env \<Rightarrow> ('db, 'k) globals \<Rightarrow> ('db, 'k) result" where
  "jwkHandler env s = \<lparr>resp = JSON StatusOK (KeySet (jwkKeySet s)), trace = [], st = s\<rparr>"

definition healthCheckHandler :: "('db, 'k) env \<Rightarrow> ('db, 'k) globals \<Rightarrow> ('db, 'k) result" where
  "healthCheckHandler env s =
     (case Ping env (dbPool s) of
        Some err \<Rightarrow>
          \<lparr>resp = JSON StatusInternalServerError
                    (H [''status'' \<mapsto> JStr ''unhealthy'', ''error'' \<mapsto> JStr err]),
           trace = [EvPing], st = s\<rparr>
      | None \<Rightarrow>
          \<lparr>resp = JSON StatusOK (H [''status'' \<mapsto> JStr ''healthy'']),
           trace = [EvPing], st = s\<rparr>)"

section \<open>The router and the life of the process\<close>

datatype request =
    POST_register "RegisterRequest json_body"
  | POST_login "loginRequest json_body"
  | GET_jwk
  | GET_health

definition route ::
  "('db, 'k) env \<Rightarrow> ('db, 'k) globals \<Rightarrow> ctx \<Rightarrow> request \<Rightarrow> ('db, 'k) result" where
  "route env s c r =
     (case r of
        POST_register b \<Rightarrow> registerHandler env s c b
      | POST_login b \<Rightarrow> loginHandler env s c b
      | GET_jwk \<Rightarrow> jwkHandler env s
      | GET_health \<Rightarrow> healthCheckHandler env s)"

text \<open>
  The requests the process serves after startup, one after the other, each with
  its clock and random values; the responses in the same order.
\<close>

fun serve ::
  "('db, 'k) env \<Rightarrow> ('db, 'k) globals \<Rightarrow> (ctx \<times> request) list \<Rightarrow> 'k response list" where
  "serve env s [] = []"
| "serve env s ((c, r) # rest) = resp (route env s c r) # serve env (st (route env s c r)) rest"

fun serve_state ::
  "('db, 'k) env \<Rightarrow> ('db, 'k) globals \<Rightarrow> (ctx \<times> request) list \<Rightarrow> ('db, 'k) globals" where
  "serve_state env s [] = s"
| "serve_state env s ((c, r) # rest) = serve_state env (st (route env s c r)) rest"

section \<open>A concrete environment\<close>

text \<open>
  One environment, used to run the handlers on concrete requests: the store is
  the list of its rows, a key is the public half with its key id and \<open>alg\<close>,
  and the hashing, signing and validation are small stand-ins. The stand-in for
  \<open>bcrypt.CompareHashAndPassword\<close> returns, as the library does, one error for
  a stored hash that is malformed and another for a password that does not
  match.
\<close>

definition example_env :: "(User list, rsa_PublicKey \<times> string \<times> string) env" where
  "example_env =
     \<lparr>Getenv = (\<lambda>name. ''postgres://localhost/auth''),
      pgxpool_Connect = (\<lambda>url. Inr []),
      rsa_GenerateKey = (\<lambda>rnd bits.
         Inr \<lparr>PublicKey = \<lparr>N = 3233, E = 17\<rparr>, D = 2753, Primes = [61, 53]\<rparr>),
      jwk_New = (\<lambda>p. Inr (p, [], [])),
      jwk_AssignKeyID = (\<lambda>k. (fst k, ''kid-3233-17'', snd (snd k))),
      jwk_Set = (\<lambda>k name v. if name = ''alg'' then (fst k, fst (snd k), v) else k),
      jwk_KeyID = (\<lambda>k. fst (snd k)),
      bcrypt_DefaultCost = 10,
      bcrypt_GenerateFromPassword = (\<lambda>rnd pw cost. Inr (rnd @ ''$'' @ pw)),
      bcrypt_CompareHashAndPassword = (\<lambda>h pw.
         if CHR ''$'' \<notin> set h
         then Some ''crypto/bcrypt: hashedSecret too short to be a bcrypted password''
         else if drop (length h - length pw) h = pw then None
         else Some ''crypto/bcrypt: hashedPassword is not the hash of the given password''),
      Exec_INSERT_users = (\<lambda>db i u p.
         if u \<in> set (map Username db) then Inl ''duplicate key''
         else Inr (db @ [\<lparr>ID = i, Username = u, Password = p\<rparr>])),
      QueryRow_SELECT_users = (\<lambda>db u.
         case filter (\<lambda>row. Username row = u) db of
           [] \<Rightarrow> Inl ''no rows in result set''
         | row # rows \<Rightarrow> Inr row),
      Ping = (\<lambda>db. None),
      jwt_SignedString = (\<lambda>t k.
         case Header t ''kid'' of
           Some (JStr kid) \<Rightarrow> Inr (kid @ ''.claims.signature'')
         | _ \<Rightarrow> Inl ''no key id''),
      validator_email = (\<lambda>v. CHR ''@'' \<in> set v),
      utf8_RuneCountInString = length,
      err_Error = (\<lambda>e. case e of DecodeError m \<Rightarrow> m
                         | ValidationErrors es \<Rightarrow> concat (map (\<lambda>ft. fst ft @ '':'' @ snd ft) es))\<rparr>"

definition example_globals :: "(User list, rsa_PublicKey \<times> string \<times> string) globals" where
  "example_globals =
     \<lparr>dbPool = [\<lparr>ID = 7, Username = ''a@example.com'', Password = ''salt$longpassword1''\<rparr>],
      rsaKey = \<lparr>PublicKey = \<lparr>N = 3233, E = 17\<rparr>, D = 2753, Primes = [61, 53]\<rparr>,
      rsaKeyJWK = (\<lparr>N = 3233, E = 17\<rparr>, ''kid-3233-17'', ''RS256''),
      jwkKeySet = [(\<lparr>N = 3233, E = 17\<rparr>, ''kid-3233-17'', ''RS256'')]\<rparr>"

definition example_ctx :: ctx where
  "example_ctx = \<lparr>time_Now = 1700000000123456789, uuid_New = 42, rand_Reader = ''salt''\<rparr>"

section \<open>The Credential Verifier\<close>

text \<open>
  Modelled from the spec: the Credential Verifier's \<open>hash\<close> and \<open>verify\<close>. The
  source only calls them (\<open>bcrypt.GenerateFromPassword\<close> in
  \<open>registerHandler\<close>, \<open>bcrypt.CompareHashAndPassword\<close> in \<open>loginHandler\<close>);
  their code is not among the repository's files. The spec describes a one-way,
  salted hashing function producing a fixed-format hash string embedding the
  cost factor and the salt; \<open>hash\<close> fails with \<open>HashingFailure\<close> when the
  computation cannot complete; \<open>verify\<close> tells whether the password matches
  the credential. The one-way function
  is the parameter \<open>f\<close> (cost, salt, password to digest, \<open>None\<close> when it
  cannot complete), the salt that \<open>hash\<close> draws is an argument, and the
  fixed format is the layout of the library the source calls: \<open>$2a$\<close>, two
  decimal digits of cost, \<open>$\<close>, 22 characters of salt, 31 of digest.
\<close>

datatype verifier_error = HashingFailure | MalformedCredential | MismatchedHashAndPassword

type_synonym kdf = "nat \<Rightarrow> string \<Rightarrow> string \<Rightarrow> string option"

definition salt_len :: nat where
  "salt_len = 22"

definition digest_len :: nat where
  "digest_len = 31"

definition digit_char :: "nat \<Rightarrow> char" where
  "digit_char n = char_of (48 + n)"

definition char_digit :: "char \<Rightarrow> nat option" where
  "char_digit ch =
     (if 48 \<le> (of_char ch :: nat) \<and> (of_char ch :: nat) \<le> 57
      then Some (of_char ch - 48) else None)"

text \<open>
  Modelled from the spec: the fixed-format hash string embedding the cost factor
  and the salt.
\<close>

definition render_credential :: "nat \<Rightarrow> string \<Rightarrow> string \<Rightarrow> string" where
  "render_credential cost salt digest =
     ''$2a$'' @ [digit_char (cost div 10), digit_char (cost mod 10)] @ ''$'' @ salt @ digest"

text \<open>
  Modelled from the spec: reading a hash string back; \<open>None\<close> is the
  structurally malformed credential.
\<close>

definition parse_credential :: "string \<Rightarrow> (nat \<times> string \<times> string) option" where
  "parse_credential h =
     (if length h \<noteq> 7 + salt_len + digest_len \<or> take 4 h \<noteq> ''$2a$'' \<or> h ! 6 \<noteq> CHR ''$''
      then None
      else case (char_digit (h ! 4), char_digit (h ! 5)) of
             (Some a, Some b) \<Rightarrow>
               Some (10 * a + b, take salt_len (drop 7 h), drop salt_len (drop 7 h))
           | _ \<Rightarrow> None)"

text \<open>
  Modelled from the spec: \<open>hash(password)\<close>, which fails with
  \<open>HashingFailure\<close> when the computation cannot complete. The first three
  arguments are the one-way function, the cost factor and the salt drawn.
\<close>

definition hash :: "kdf \<Rightarrow> nat \<Rightarrow> string \<Rightarrow> string \<Rightarrow> verifier_error + string" where
  "hash f cost salt password =
     (if 100 \<le> cost \<or> length salt \<noteq> salt_len then Inl HashingFailure
      else case f cost salt password of
             None \<Rightarrow> Inl HashingFailure
           | Some d \<Rightarrow>
               if length d \<noteq> digest_len then Inl HashingFailure
               else Inr (render_credential cost salt d))"

text \<open>
  Modelled from the spec: \<open>verify(password, hashedCredential)\<close>, with the
  result the call in \<open>loginHandler\<close> has: one error value, absent when the
  password's digest under the embedded cost and salt is the embedded digest,
  present when it is not and when the credential is malformed.
\<close>

definition verify :: "kdf \<Rightarrow> string \<Rightarrow> string \<Rightarrow> verifier_error option" where
  "verify f password h =
     (case parse_credential h of
        None \<Rightarrow> Some MalformedCredential
      | Some (cost, salt, d) \<Rightarrow>
          if f cost salt password = Some d then None else Some MismatchedHashAndPassword)"

text \<open>A stand-in for the one-way function, used to run \<open>hash\<close> and \<open>verify\<close>.\<close>

definition example_kdf :: kdf where
  "example_kdf cost salt password = Some (take digest_len (password @ salt @ replicate digest_len CHR ''.''))"

section \<open>Facts about the handlers\<close>

lemma unix_add_day: "time_Unix (time_Add t (time_Hour * 24)) = time_Unix t + 86400"
  by (simp add: time_Unix_def time_Add_def time_Hour_def)

lemma route_globals:
  "rsaKey (st (route env s c r)) = rsaKey s \<and> rsaKeyJWK (st (route env s c r)) = rsaKeyJWK s
   \<and> jwkKeySet (st (route env s c r)) = jwkKeySet s"
  by (cases r)
     (simp_all add: route_def registerHandler_def loginHandler_def jwkHandler_def
        healthCheckHandler_def Let_def split: sum.splits option.splits)

lemma serve_state_globals:
  "rsaKey (serve_state env s reqs) = rsaKey s \<and> rsaKeyJWK (serve_state env s reqs) = rsaKeyJWK s
   \<and> jwkKeySet (serve_state env s reqs) = jwkKeySet s"
proof (induction reqs arbitrary: s)
  case Nil
  show ?case by simp
next
  case (Cons cr reqs)
  obtain c r where cr: "cr = (c, r)" by (cases cr)
  show ?case
    using Cons.IH [of "st (route env s c r)"] route_globals [of env s c r]
    by (simp add: cr)
qed

lemma serve_nth:
  "i < length reqs \<Longrightarrow>
   serve env s reqs ! i = resp (route env (serve_state env s (take i reqs)) (fst (reqs ! i)) (snd (reqs ! i)))"
proof (induction reqs arbitrary: s i)
  case Nil
  then show ?case by simp
next
  case (Cons cr reqs)
  obtain c r where cr: "cr = (c, r)" by (cases cr)
  show ?case
  proof (cases i)
    case 0
    then show ?thesis by (simp add: cr)
  next
    case (Suc j)
    with Cons.prems have "j < length reqs" by simp
    from Cons.IH [OF this, of "st (route env s c r)"] show ?thesis
      by (simp add: cr Suc)
  qed
qed

lemma main_Serving:
  assumes "main env rnd = Serving s0"
  shows "\<exists>k0. rsa_GenerateKey env rnd 2048 = Inr (rsaKey s0)
           \<and> jwk_New env (PublicKey (rsaKey s0)) = Inr k0
           \<and> rsaKeyJWK s0 = jwk_Set env (jwk_AssignKeyID env k0) ''alg'' ''RS256''
           \<and> jwkKeySet s0 = [rsaKeyJWK s0]"
  using assms
  by (auto simp: main_def Let_def jwk_Add_def jwk_NewSet_def split: sum.splits)

lemma loginHandler_StatusOK:
  assumes "status (resp (loginHandler env s c b)) = StatusOK"
  shows "\<exists>req user ts.
           ShouldBindJSON_loginRequest env b = Inr req
         \<and> QueryRow_SELECT_users env (dbPool s) (login_Email req) = Inr user
         \<and> bcrypt_CompareHashAndPassword env (Password user) (login_Password req) = None
         \<and> jwt_SignedString env
               \<lparr>Method = SigningMethodRS256,
                Header = [''typ'' \<mapsto> JStr ''JWT'', ''alg'' \<mapsto> JStr SigningMethodRS256,
                          ''kid'' \<mapsto> JStr (jwk_KeyID env (rsaKeyJWK s))],
                Claims = [''sub'' \<mapsto> JUUID (ID user), ''email'' \<mapsto> JStr (Username user),
                          ''roles'' \<mapsto> JStrs [''user''],
                          ''exp'' \<mapsto> JInt (time_Unix (time_Add (time_Now c) (time_Hour * 24)))]\<rparr>
               (rsaKey s) = Inr ts
         \<and> resp (loginHandler env s c b) = JSON StatusOK (H [''token'' \<mapsto> JStr ts])"
  using assms
  by (auto simp: loginHandler_def jwt_NewWithClaims_def Let_def JSON_def StatusOK_def
        StatusBadRequest_def StatusUnauthorized_def StatusInternalServerError_def
        split: sum.splits option.splits)

lemma validate_RegisterRequest_tags:
  "set (validate_Email env ''RegisterRequest.Email'' v
        @ validate_Password env ''RegisterRequest.Password'' w)
   \<subseteq> {(''RegisterRequest.Email'', ''required''), (''RegisterRequest.Email'', ''email''),
       (''RegisterRequest.Password'', ''required''), (''RegisterRequest.Password'', ''min'')}"
  by (auto simp: validate_Email_def validate_Password_def split: if_splits)

lemma ShouldBindJSON_RegisterRequest_error:
  assumes "ShouldBindJSON_RegisterRequest env b = Inl e"
  shows "(\<exists>msg. b = Inl msg \<and> e = DecodeError msg)
       \<or> (\<exists>es. e = ValidationErrors es
            \<and> set es \<subseteq> {(''RegisterRequest.Email'', ''required''),
                 (''RegisterRequest.Email'', ''email''),
                 (''RegisterRequest.Password'', ''required''),
                 (''RegisterRequest.Password'', ''min'')})"
proof (cases b)
  case (Inl msg)
  with assms show ?thesis by (simp add: ShouldBindJSON_RegisterRequest_def)
next
  case (Inr req)
  let ?es = "validate_Email env ''RegisterRequest.Email'' (reg_Email req)
        @ validate_Password env ''RegisterRequest.Password'' (reg_Password req)"
  from assms Inr have "e = ValidationErrors ?es"
    by (auto simp: ShouldBindJSON_RegisterRequest_def split: list.splits)
  with validate_RegisterRequest_tags [of env "reg_Email req" "reg_Password req"]
  show ?thesis by blast
qed

section \<open>Facts about the Credential Verifier\<close>

lemma char_digit_digit_char: "n < 10 \<Longrightarrow> char_digit (digit_char n) = Some n"
  by (simp add: char_digit_def digit_char_def)

lemma parse_render:
  assumes "cost < 100" and "length salt = salt_len" and "length d = digest_len"
  shows "parse_credential (render_credential cost salt d) = Some (cost, salt, d)"
proof -
  have a: "char_digit (digit_char (cost div 10)) = Some (cost div 10)"
    using assms(1) by (intro char_digit_digit_char) simp
  have b: "char_digit (digit_char (cost mod 10)) = Some (cost mod 10)"
    by (intro char_digit_digit_char) simp
  show ?thesis
    using assms(2,3) a b
    by (simp add: parse_credential_def render_credential_def)
qed

lemma hash_Inr:
  assumes "hash f cost salt p = Inr h"
  shows "\<exists>d. cost < 100 \<and> length salt = salt_len \<and> length d = digest_len
           \<and> f cost salt p = Some d \<and> h = render_credential cost salt d"
  using assms by (auto simp: hash_def split: if_splits option.splits)

lemma verify_hash:
  assumes "hash f cost salt p = Inr h"
  shows "verify f q h
           = (if f cost salt q = f cost salt p then None else Some MismatchedHashAndPassword)"
proof -
  from hash_Inr [OF assms] obtain d where
    d: "cost < 100" "length salt = salt_len" "length d = digest_len"
       "f cost salt p = Some d" "h = render_credential cost salt d"
    by blast
  from parse_render [OF d(1,2,3)] d(4,5) show ?thesis
    by (simp add: verify_def)
qed

section \<open>The claims\<close>

text \<open>
  Claim C1. After startup and any sequence of requests, a login answered with
  status 200 returns the signature of a token whose claims are exactly
  \<open>sub\<close> = the id of the row found for the handle, \<open>email\<close> = its handle,
  \<open>roles\<close> = [user] and \<open>exp\<close> = the Unix time of the request plus 24 hours
  (86400 seconds), and whose header \<open>kid\<close> is the key id of the one key of the
  published key set.
\<close>

theorem issued_token_claims_and_kid:
  assumes boot: "main env rnd = Serving s0"
      and later: "s = serve_state env s0 reqs"
      and ok: "status (resp (loginHandler env s c b)) = StatusOK"
  shows "\<exists>req user token ts k.
           ShouldBindJSON_loginRequest env b = Inr req
         \<and> QueryRow_SELECT_users env (dbPool s) (login_Email req) = Inr user
         \<and> Claims token = [''sub'' \<mapsto> JUUID (ID user), ''email'' \<mapsto> JStr (Username user),
                            ''roles'' \<mapsto> JStrs [''user''],
                            ''exp'' \<mapsto> JInt (time_Unix (time_Now c) + 24 * 60 * 60)]
         \<and> jwkKeySet s = [k]
         \<and> Header token ''kid'' = Some (JStr (jwk_KeyID env k))
         \<and> jwt_SignedString env token (rsaKey s0) = Inr ts
         \<and> resp (loginHandler env s c b) = JSON StatusOK (H [''token'' \<mapsto> JStr ts])"
proof -
  from main_Serving [OF boot] have set0: "jwkKeySet s0 = [rsaKeyJWK s0]" by blast
  from serve_state_globals [of env s0 reqs] later
  have same: "rsaKey s = rsaKey s0" "rsaKeyJWK s = rsaKeyJWK s0" "jwkKeySet s = jwkKeySet s0"
    by simp_all
  from loginHandler_StatusOK [OF ok] obtain req user ts where
    bind: "ShouldBindJSON_loginRequest env b = Inr req" and
    row: "QueryRow_SELECT_users env (dbPool s) (login_Email req) = Inr user" and
    sign: "jwt_SignedString env
               \<lparr>Method = SigningMethodRS256,
                Header = [''typ'' \<mapsto> JStr ''JWT'', ''alg'' \<mapsto> JStr SigningMethodRS256,
                          ''kid'' \<mapsto> JStr (jwk_KeyID env (rsaKeyJWK s))],
                Claims = [''sub'' \<mapsto> JUUID (ID user), ''email'' \<mapsto> JStr (Username user),
                          ''roles'' \<mapsto> JStrs [''user''],
                          ''exp'' \<mapsto> JInt (time_Unix (time_Add (time_Now c) (time_Hour * 24)))]\<rparr>
               (rsaKey s) = Inr ts" and
    out: "resp (loginHandler env s c b) = JSON StatusOK (H [''token'' \<mapsto> JStr ts])"
    by blast
  let ?token = "\<lparr>Method = SigningMethodRS256,
                Header = [''typ'' \<mapsto> JStr ''JWT'', ''alg'' \<mapsto> JStr SigningMethodRS256,
                          ''kid'' \<mapsto> JStr (jwk_KeyID env (rsaKeyJWK s))],
                Claims = [''sub'' \<mapsto> JUUID (ID user), ''email'' \<mapsto> JStr (Username user),
                          ''roles'' \<mapsto> JStrs [''user''],
                          ''exp'' \<mapsto> JInt (time_Unix (time_Add (time_Now c) (time_Hour * 24)))]\<rparr>"
  have cl: "Claims ?token = [''sub'' \<mapsto> JUUID (ID user), ''email'' \<mapsto> JStr (Username user),
                            ''roles'' \<mapsto> JStrs [''user''],
                            ''exp'' \<mapsto> JInt (time_Unix (time_Now c) + 24 * 60 * 60)]"
    by (simp add: unix_add_day)
  have kid: "Header ?token ''kid'' = Some (JStr (jwk_KeyID env (rsaKeyJWK s0)))"
    by (simp add: same)
  have ks: "jwkKeySet s = [rsaKeyJWK s0]"
    by (simp add: same set0)
  from sign have sign0: "jwt_SignedString env ?token (rsaKey s0) = Inr ts"
    by (simp add: same)
  from bind row cl ks kid sign0 out show ?thesis by blast
qed

theorem issued_token_claims_and_kid_witness:
  "main example_env ''seed'' = Serving (example_globals\<lparr>dbPool := []\<rparr>)
   \<and> status (resp (loginHandler example_env
         (serve_state example_env (example_globals\<lparr>dbPool := []\<rparr>)
            [(example_ctx, POST_register
                (Inr \<lparr>reg_Email = ''a@example.com'', reg_Password = ''longpassword1''\<rparr>))])
         example_ctx
         (Inr \<lparr>login_Email = ''a@example.com'', login_Password = ''longpassword1''\<rparr>))) = StatusOK
   \<and> (\<exists>ts. resp (loginHandler example_env
         (serve_state example_env (example_globals\<lparr>dbPool := []\<rparr>)
            [(example_ctx, POST_register
                (Inr \<lparr>reg_Email = ''a@example.com'', reg_Password = ''longpassword1''\<rparr>))])
         example_ctx
         (Inr \<lparr>login_Email = ''a@example.com'', login_Password = ''longpassword1''\<rparr>))
        = JSON StatusOK (H [''token'' \<mapsto> JStr ts]))"
proof -
  have boot: "main example_env ''seed'' = Serving (example_globals\<lparr>dbPool := []\<rparr>)"
    by (simp add: main_def example_env_def example_globals_def jwk_Add_def jwk_NewSet_def Let_def)
  have ok: "status (resp (loginHandler example_env
         (serve_state example_env (example_globals\<lparr>dbPool := []\<rparr>)
            [(example_ctx, POST_register
                (Inr \<lparr>reg_Email = ''a@example.com'', reg_Password = ''longpassword1''\<rparr>))])
         example_ctx
         (Inr \<lparr>login_Email = ''a@example.com'', login_Password = ''longpassword1''\<rparr>))) = StatusOK"
    by (simp add: route_def registerHandler_def loginHandler_def
          ShouldBindJSON_RegisterRequest_def ShouldBindJSON_loginRequest_def
          validate_Email_def validate_Password_def jwt_NewWithClaims_def
          example_env_def example_globals_def example_ctx_def JSON_def Let_def)
  from issued_token_claims_and_kid [OF boot refl ok] boot ok show ?thesis by blast
qed

text \<open>
  Claim C2. After startup the key set holds exactly one key: the JWK made from
  the public half of the key pair generated at startup, with its key id assigned
  and \<open>alg\<close> set. \<open>jwkHandler\<close> returns that key set with status 200 after any
  sequence of requests, calls nothing and changes nothing; every \<open>GET /.jwk\<close> in
  a run gets the same answer. The key set is a function of the public half
  alone: two startups whose keys share the public half publish the same set.
\<close>

theorem published_key_set_is_fixed:
  assumes boot: "main env rnd = Serving s0"
  shows "\<exists>k0. rsa_GenerateKey env rnd 2048 = Inr (rsaKey s0)
           \<and> jwk_New env (PublicKey (rsaKey s0)) = Inr k0
           \<and> jwkKeySet s0 = [jwk_Set env (jwk_AssignKeyID env k0) ''alg'' ''RS256'']
           \<and> (\<forall>reqs. resp (jwkHandler env (serve_state env s0 reqs))
                        = JSON StatusOK (KeySet (jwkKeySet s0))
                    \<and> trace (jwkHandler env (serve_state env s0 reqs)) = []
                    \<and> st (jwkHandler env (serve_state env s0 reqs)) = serve_state env s0 reqs)
           \<and> (\<forall>reqs i. i < length reqs \<longrightarrow> snd (reqs ! i) = GET_jwk \<longrightarrow>
                  serve env s0 reqs ! i = JSON StatusOK (KeySet (jwkKeySet s0)))
           \<and> (\<forall>rnd' s0'. main env rnd' = Serving s0' \<longrightarrow>
                  PublicKey (rsaKey s0') = PublicKey (rsaKey s0) \<longrightarrow>
                  jwkKeySet s0' = jwkKeySet s0)"
proof -
  from main_Serving [OF boot] obtain k0 where
    gen: "rsa_GenerateKey env rnd 2048 = Inr (rsaKey s0)" and
    new: "jwk_New env (PublicKey (rsaKey s0)) = Inr k0" and
    key: "rsaKeyJWK s0 = jwk_Set env (jwk_AssignKeyID env k0) ''alg'' ''RS256''" and
    set0: "jwkKeySet s0 = [rsaKeyJWK s0]"
    by blast
  have handler: "resp (jwkHandler env (serve_state env s0 reqs))
                   = JSON StatusOK (KeySet (jwkKeySet s0))
               \<and> trace (jwkHandler env (serve_state env s0 reqs)) = []
               \<and> st (jwkHandler env (serve_state env s0 reqs)) = serve_state env s0 reqs"
    for reqs
    using serve_state_globals [of env s0 reqs] by (simp add: jwkHandler_def)
  have nth: "serve env s0 reqs ! i = JSON StatusOK (KeySet (jwkKeySet s0))"
    if "i < length reqs" and "snd (reqs ! i) = GET_jwk" for reqs i
    using serve_nth [OF that(1), of env s0] that(2) handler [of "take i reqs"]
    by (simp add: route_def)
  have pub: "jwkKeySet s0' = jwkKeySet s0"
    if b': "main env rnd' = Serving s0'" and same: "PublicKey (rsaKey s0') = PublicKey (rsaKey s0)"
    for rnd' s0'
  proof -
    from main_Serving [OF b'] obtain k0' where
      new': "jwk_New env (PublicKey (rsaKey s0')) = Inr k0'" and
      key': "rsaKeyJWK s0' = jwk_Set env (jwk_AssignKeyID env k0') ''alg'' ''RS256''" and
      set0': "jwkKeySet s0' = [rsaKeyJWK s0']"
      by blast
    from new new' same have "k0' = k0" by simp
    with key key' set0 set0' show ?thesis by simp
  qed
  from gen new key set0 handler nth pub show ?thesis by auto
qed

theorem published_key_set_is_fixed_witness:
  "main example_env ''seed'' = Serving (example_globals\<lparr>dbPool := []\<rparr>)
   \<and> jwkKeySet (example_globals\<lparr>dbPool := []\<rparr>)
       = [(\<lparr>N = 3233, E = 17\<rparr>, ''kid-3233-17'', ''RS256'')]
   \<and> serve example_env (example_globals\<lparr>dbPool := []\<rparr>)
        [(example_ctx, GET_jwk),
         (example_ctx, POST_register
            (Inr \<lparr>reg_Email = ''a@example.com'', reg_Password = ''longpassword1''\<rparr>)),
         (example_ctx, GET_jwk)] ! 2
       = JSON StatusOK (KeySet [(\<lparr>N = 3233, E = 17\<rparr>, ''kid-3233-17'', ''RS256'')])"
proof -
  have boot: "main example_env ''seed'' = Serving (example_globals\<lparr>dbPool := []\<rparr>)"
    by (simp add: main_def example_env_def example_globals_def jwk_Add_def jwk_NewSet_def Let_def)
  have ks: "jwkKeySet (example_globals\<lparr>dbPool := []\<rparr>)
       = [(\<lparr>N = 3233, E = 17\<rparr>, ''kid-3233-17'', ''RS256'')]"
    by (simp add: example_globals_def)
  from published_key_set_is_fixed [OF boot]
  have "\<forall>reqs i. i < length reqs \<longrightarrow> snd (reqs ! i) = GET_jwk \<longrightarrow>
          serve example_env (example_globals\<lparr>dbPool := []\<rparr>) reqs ! i
            = JSON StatusOK (KeySet (jwkKeySet (example_globals\<lparr>dbPool := []\<rparr>)))"
    by blast
  then have "serve example_env (example_globals\<lparr>dbPool := []\<rparr>)
        [(example_ctx, GET_jwk),
         (example_ctx, POST_register
            (Inr \<lparr>reg_Email = ''a@example.com'', reg_Password = ''longpassword1''\<rparr>)),
         (example_ctx, GET_jwk)] ! 2
       = JSON StatusOK (KeySet (jwkKeySet (example_globals\<lparr>dbPool := []\<rparr>)))"
    by (simp del: serve.simps)
  with boot ks show ?thesis by simp
qed

text \<open>
  Claim C3. For login requests that pass binding, the response when the store
  returns no row for the handle equals the response when a row is found and the
  password does not verify: status 401 with the one message
  \<open>Invalid email or password\<close>.
\<close>

theorem login_rejection_is_uniform:
  assumes "ShouldBindJSON_loginRequest env b1 = Inr req1"
      and "QueryRow_SELECT_users env (dbPool s1) (login_Email req1) = Inl e1"
      and "ShouldBindJSON_loginRequest env b2 = Inr req2"
      and "QueryRow_SELECT_users env (dbPool s2) (login_Email req2) = Inr user"
      and "bcrypt_CompareHashAndPassword env (Password user) (login_Password req2) = Some e2"
  shows "resp (loginHandler env s1 c1 b1) = resp (loginHandler env s2 c2 b2)
       \<and> resp (loginHandler env s1 c1 b1)
           = JSON StatusUnauthorized (H [''error'' \<mapsto> JStr ''Invalid email or password''])"
  using assms by (simp add: loginHandler_def)

theorem login_rejection_is_uniform_witness:
  "resp (loginHandler example_env example_globals example_ctx
           (Inr \<lparr>login_Email = ''unknown@example.com'', login_Password = ''whatever1''\<rparr>))
     = resp (loginHandler example_env example_globals example_ctx
           (Inr \<lparr>login_Email = ''a@example.com'', login_Password = ''wrongpass''\<rparr>))
   \<and> resp (loginHandler example_env example_globals example_ctx
           (Inr \<lparr>login_Email = ''unknown@example.com'', login_Password = ''whatever1''\<rparr>))
     = JSON StatusUnauthorized (H [''error'' \<mapsto> JStr ''Invalid email or password''])"
  by (rule login_rejection_is_uniform
        [where ?req1.0 = "\<lparr>login_Email = ''unknown@example.com'', login_Password = ''whatever1''\<rparr>"
           and ?e1.0 = "''no rows in result set''"
           and ?req2.0 = "\<lparr>login_Email = ''a@example.com'', login_Password = ''wrongpass''\<rparr>"
           and user = "\<lparr>ID = 7, Username = ''a@example.com'', Password = ''salt$longpassword1''\<rparr>"
           and ?e2.0 = "''crypto/bcrypt: hashedPassword is not the hash of the given password''"])
     (simp_all add: example_env_def example_globals_def ShouldBindJSON_loginRequest_def
        validate_Email_def validate_Password_def)




text \<open>
  Claim C6. A registration whose password has fewer than 8 runes, or whose
  email fails the validator's \<open>email\<close> test, is answered with status 400 and
  the validation error; the handler calls neither the hashing library nor the
  store, and the state is unchanged.
\<close>

theorem register_invalid_rejected_before_hash:
  assumes "utf8_RuneCountInString env (reg_Password req) < 8 \<or> \<not> validator_email env (reg_Email req)"
  shows "\<exists>e es. ShouldBindJSON_RegisterRequest env (Inr req) = Inl (ValidationErrors (e # es))
           \<and> resp (registerHandler env s c (Inr req))
               = JSON StatusBadRequest (H [''error'' \<mapsto> JStr (err_Error env (ValidationErrors (e # es)))])
           \<and> trace (registerHandler env s c (Inr req)) = []
           \<and> st (registerHandler env s c (Inr req)) = s"
  using assms
  by (auto simp: registerHandler_def ShouldBindJSON_RegisterRequest_def validate_Email_def
        validate_Password_def)

theorem register_invalid_rejected_before_hash_witness:
  "utf8_RuneCountInString example_env
        (reg_Password \<lparr>reg_Email = ''a@example.com'', reg_Password = ''short''\<rparr>) < 8
   \<and> status (resp (registerHandler example_env example_globals example_ctx
        (Inr \<lparr>reg_Email = ''a@example.com'', reg_Password = ''short''\<rparr>))) = 400
   \<and> trace (registerHandler example_env example_globals example_ctx
        (Inr \<lparr>reg_Email = ''a@example.com'', reg_Password = ''short''\<rparr>)) = []
   \<and> st (registerHandler example_env example_globals example_ctx
        (Inr \<lparr>reg_Email = ''a@example.com'', reg_Password = ''short''\<rparr>)) = example_globals"
proof -
  have h: "utf8_RuneCountInString example_env
        (reg_Password \<lparr>reg_Email = ''a@example.com'', reg_Password = ''short''\<rparr>) < 8"
    by (simp add: example_env_def)
  from register_invalid_rejected_before_hash [OF disjI1, OF h, of example_globals example_ctx] h
  show ?thesis by (auto simp: JSON_def StatusBadRequest_def)
qed

text \<open>
  Claim C9. A registration answered with status 201 has created the identity it
  reports: the password was hashed, the row inserted has the new UUID, the
  request's email and the hash (not the password), the store is the one the
  INSERT returned, and the body has exactly the keys \<open>id\<close> (that UUID) and
  \<open>email\<close> (that email). Every other response of \<open>registerHandler\<close> has the
  single key \<open>error\<close>: the message of the binding error (the decoder's message
  or a list of field names and tags) before any call, \<open>Failed to hash password\<close>
  after the hash failed, or \<open>Failed to register user\<close> after the INSERT failed;
  the state is then unchanged. No response holds the password or the hash, and
  a registration whose binding, hash and INSERT succeed is answered with 201.
\<close>

theorem register_response_has_id_and_email_only:
  "(status (resp (registerHandler env s c b)) = StatusCreated \<longrightarrow>
      (\<exists>req hashed db'. ShouldBindJSON_RegisterRequest env b = Inr req
         \<and> bcrypt_GenerateFromPassword env (rand_Reader c) (reg_Password req)
               (bcrypt_DefaultCost env) = Inr hashed
         \<and> Exec_INSERT_users env (dbPool s) (uuid_New c) (reg_Email req) hashed = Inr db'
         \<and> trace (registerHandler env s c b)
             = [EvHash (reg_Password req),
                EvInsert \<lparr>ID = uuid_New c, Username = reg_Email req, Password = hashed\<rparr>]
         \<and> st (registerHandler env s c b) = s\<lparr>dbPool := db'\<rparr>
         \<and> body (resp (registerHandler env s c b))
             = H [''id'' \<mapsto> JUUID (uuid_New c), ''email'' \<mapsto> JStr (reg_Email req)]))
   \<and> (status (resp (registerHandler env s c b)) \<noteq> StatusCreated \<longrightarrow>
       (\<exists>e. ShouldBindJSON_RegisterRequest env b = Inl e
          \<and> ((\<exists>msg. b = Inl msg \<and> e = DecodeError msg)
              \<or> (\<exists>es. e = ValidationErrors es
                   \<and> set es \<subseteq> {(''RegisterRequest.Email'', ''required''),
                        (''RegisterRequest.Email'', ''email''),
                        (''RegisterRequest.Password'', ''required''),
                        (''RegisterRequest.Password'', ''min'')}))
          \<and> resp (registerHandler env s c b)
              = JSON StatusBadRequest (H [''error'' \<mapsto> JStr (err_Error env e)])
          \<and> trace (registerHandler env s c b) = []
          \<and> st (registerHandler env s c b) = s)
       \<or> (\<exists>req e. ShouldBindJSON_RegisterRequest env b = Inr req
          \<and> bcrypt_GenerateFromPassword env (rand_Reader c) (reg_Password req)
                (bcrypt_DefaultCost env) = Inl e
          \<and> resp (registerHandler env s c b)
              = JSON StatusInternalServerError (H [''error'' \<mapsto> JStr ''Failed to hash password''])
          \<and> trace (registerHandler env s c b) = [EvHash (reg_Password req)]
          \<and> st (registerHandler env s c b) = s)
       \<or> (\<exists>req hashed e. ShouldBindJSON_RegisterRequest env b = Inr req
          \<and> bcrypt_GenerateFromPassword env (rand_Reader c) (reg_Password req)
                (bcrypt_DefaultCost env) = Inr hashed
          \<and> Exec_INSERT_users env (dbPool s) (uuid_New c) (reg_Email req) hashed = Inl e
          \<and> resp (registerHandler env s c b)
              = JSON StatusInternalServerError (H [''error'' \<mapsto> JStr ''Failed to register user''])
          \<and> trace (registerHandler env s c b)
              = [EvHash (reg_Password req),
                 EvInsert \<lparr>ID = uuid_New c, Username = reg_Email req, Password = hashed\<rparr>]
          \<and> st (registerHandler env s c b) = s))
   \<and> (\<forall>req hashed db'. ShouldBindJSON_RegisterRequest env b = Inr req \<longrightarrow>
         bcrypt_GenerateFromPassword env (rand_Reader c) (reg_Password req)
           (bcrypt_DefaultCost env) = Inr hashed \<longrightarrow>
         Exec_INSERT_users env (dbPool s) (uuid_New c) (reg_Email req) hashed = Inr db' \<longrightarrow>
         status (resp (registerHandler env s c b)) = StatusCreated)"
proof (cases "ShouldBindJSON_RegisterRequest env b")
  case (Inl e)
  from ShouldBindJSON_RegisterRequest_error [OF Inl] Inl show ?thesis
    by (simp add: registerHandler_def JSON_def StatusCreated_def StatusBadRequest_def)
next
  case (Inr req)
  show ?thesis
  proof (cases "bcrypt_GenerateFromPassword env (rand_Reader c) (reg_Password req)
                  (bcrypt_DefaultCost env)")
    case (Inl e)
    with Inr show ?thesis
      by (simp add: registerHandler_def JSON_def StatusCreated_def
            StatusInternalServerError_def)
  next
    case hashed: (Inr hashed)
    show ?thesis
    proof (cases "Exec_INSERT_users env (dbPool s) (uuid_New c) (reg_Email req) hashed")
      case (Inl e)
      with Inr hashed show ?thesis
        by (simp add: registerHandler_def JSON_def StatusCreated_def
              StatusInternalServerError_def Let_def)
    next
      case db: (Inr db')
      with Inr hashed show ?thesis
        by (simp add: registerHandler_def JSON_def StatusCreated_def Let_def)
    qed
  qed
qed

theorem register_response_has_id_and_email_only_witness:
  "status (resp (registerHandler example_env example_globals example_ctx
       (Inr \<lparr>reg_Email = ''b@example.com'', reg_Password = ''longpassword2''\<rparr>))) = StatusCreated
   \<and> body (resp (registerHandler example_env example_globals example_ctx
       (Inr \<lparr>reg_Email = ''b@example.com'', reg_Password = ''longpassword2''\<rparr>)))
       = H [''id'' \<mapsto> JUUID 42, ''email'' \<mapsto> JStr ''b@example.com'']
   \<and> trace (registerHandler example_env example_globals example_ctx
       (Inr \<lparr>reg_Email = ''b@example.com'', reg_Password = ''longpassword2''\<rparr>))
       = [EvHash ''longpassword2'',
          EvInsert \<lparr>ID = 42, Username = ''b@example.com'', Password = ''salt$longpassword2''\<rparr>]
   \<and> dbPool (st (registerHandler example_env example_globals example_ctx
       (Inr \<lparr>reg_Email = ''b@example.com'', reg_Password = ''longpassword2''\<rparr>)))
       = [\<lparr>ID = 7, Username = ''a@example.com'', Password = ''salt$longpassword1''\<rparr>,
          \<lparr>ID = 42, Username = ''b@example.com'', Password = ''salt$longpassword2''\<rparr>]
   \<and> status (resp (registerHandler example_env example_globals example_ctx
       (Inr \<lparr>reg_Email = ''a@example.com'', reg_Password = ''longpassword2''\<rparr>))) \<noteq> StatusCreated
   \<and> resp (registerHandler example_env example_globals example_ctx
       (Inr \<lparr>reg_Email = ''a@example.com'', reg_Password = ''longpassword2''\<rparr>))
       = JSON StatusInternalServerError (H [''error'' \<mapsto> JStr ''Failed to register user''])
   \<and> st (registerHandler example_env example_globals example_ctx
       (Inr \<lparr>reg_Email = ''a@example.com'', reg_Password = ''longpassword2''\<rparr>)) = example_globals"
proof -
  let ?b = "Inr \<lparr>reg_Email = ''b@example.com'', reg_Password = ''longpassword2''\<rparr>
              :: RegisterRequest json_body"
  let ?a = "Inr \<lparr>reg_Email = ''a@example.com'', reg_Password = ''longpassword2''\<rparr>
              :: RegisterRequest json_body"
  have bind: "ShouldBindJSON_RegisterRequest example_env ?b
       = Inr \<lparr>reg_Email = ''b@example.com'', reg_Password = ''longpassword2''\<rparr>"
    by (simp add: ShouldBindJSON_RegisterRequest_def validate_Email_def
          validate_Password_def example_env_def)
  have hashed: "bcrypt_GenerateFromPassword example_env (rand_Reader example_ctx)
        ''longpassword2'' (bcrypt_DefaultCost example_env) = Inr ''salt$longpassword2''"
    by (simp add: example_env_def example_ctx_def)
  have ins: "Exec_INSERT_users example_env (dbPool example_globals) (uuid_New example_ctx)
        ''b@example.com'' ''salt$longpassword2''
      = Inr [\<lparr>ID = 7, Username = ''a@example.com'', Password = ''salt$longpassword1''\<rparr>,
             \<lparr>ID = 42, Username = ''b@example.com'', Password = ''salt$longpassword2''\<rparr>]"
    by (simp add: example_env_def example_globals_def example_ctx_def)
  have binda: "ShouldBindJSON_RegisterRequest example_env ?a
       = Inr \<lparr>reg_Email = ''a@example.com'', reg_Password = ''longpassword2''\<rparr>"
    by (simp add: ShouldBindJSON_RegisterRequest_def validate_Email_def
          validate_Password_def example_env_def)
  have insa: "Exec_INSERT_users example_env (dbPool example_globals) (uuid_New example_ctx)
        ''a@example.com'' ''salt$longpassword2'' = Inl ''duplicate key''"
    by (simp add: example_env_def example_globals_def example_ctx_def)
  note thb = register_response_has_id_and_email_only
               [of example_env example_globals example_ctx ?b]
  note tha = register_response_has_id_and_email_only
               [of example_env example_globals example_ctx ?a]
  from thb bind hashed ins
  have ok: "status (resp (registerHandler example_env example_globals example_ctx ?b))
              = StatusCreated"
    by simp
  with thb bind hashed ins
  have created: "body (resp (registerHandler example_env example_globals example_ctx ?b))
              = H [''id'' \<mapsto> JUUID 42, ''email'' \<mapsto> JStr ''b@example.com'']
     \<and> trace (registerHandler example_env example_globals example_ctx ?b)
       = [EvHash ''longpassword2'',
          EvInsert \<lparr>ID = 42, Username = ''b@example.com'', Password = ''salt$longpassword2''\<rparr>]
     \<and> dbPool (st (registerHandler example_env example_globals example_ctx ?b))
       = [\<lparr>ID = 7, Username = ''a@example.com'', Password = ''salt$longpassword1''\<rparr>,
          \<lparr>ID = 42, Username = ''b@example.com'', Password = ''salt$longpassword2''\<rparr>]"
    by (simp add: example_ctx_def)
  have nota: "status (resp (registerHandler example_env example_globals example_ctx ?a))
              \<noteq> StatusCreated"
    using binda hashed insa
    by (simp add: registerHandler_def JSON_def StatusCreated_def
          StatusInternalServerError_def Let_def example_ctx_def)
  with tha binda hashed insa
  have dup: "resp (registerHandler example_env example_globals example_ctx ?a)
       = JSON StatusInternalServerError (H [''error'' \<mapsto> JStr ''Failed to register user''])
     \<and> st (registerHandler example_env example_globals example_ctx ?a) = example_globals"
    by (simp add: example_ctx_def)
  from ok created nota dup show ?thesis by blast
qed

text \<open>
  Claim C10. A login whose password has fewer than 8 runes is answered with
  status 400 and a validation error naming the password field; the store is not
  consulted (no call is made and the state is unchanged), and the response
  differs from the generic 401 response.
\<close>

theorem login_short_password_is_bad_request:
  assumes "utf8_RuneCountInString env (login_Password req) < 8"
  shows "\<exists>e es. ShouldBindJSON_loginRequest env (Inr req) = Inl (ValidationErrors (e # es))
           \<and> (\<exists>tag. (''loginRequest.Password'', tag) \<in> set (e # es))
           \<and> resp (loginHandler env s c (Inr req))
               = JSON StatusBadRequest (H [''error'' \<mapsto> JStr (err_Error env (ValidationErrors (e # es)))])
           \<and> trace (loginHandler env s c (Inr req)) = []
           \<and> st (loginHandler env s c (Inr req)) = s
           \<and> resp (loginHandler env s c (Inr req))
               \<noteq> JSON StatusUnauthorized (H [''error'' \<mapsto> JStr ''Invalid email or password''])"
  using assms
  by (auto simp: loginHandler_def ShouldBindJSON_loginRequest_def validate_Email_def
        validate_Password_def JSON_def StatusBadRequest_def StatusUnauthorized_def)

theorem login_short_password_is_bad_request_witness:
  "utf8_RuneCountInString example_env
      (login_Password \<lparr>login_Email = ''a@example.com'', login_Password = ''short''\<rparr>) < 8
   \<and> status (resp (loginHandler example_env example_globals example_ctx
        (Inr \<lparr>login_Email = ''a@example.com'', login_Password = ''short''\<rparr>))) = 400
   \<and> trace (loginHandler example_env example_globals example_ctx
        (Inr \<lparr>login_Email = ''a@example.com'', login_Password = ''short''\<rparr>)) = []"
proof -
  have h: "utf8_RuneCountInString example_env
      (login_Password \<lparr>login_Email = ''a@example.com'', login_Password = ''short''\<rparr>) < 8"
    by (simp add: example_env_def)
  from login_short_password_is_bad_request [OF h, of example_globals example_ctx] h
  show ?thesis by (auto simp: JSON_def StatusBadRequest_def)
qed

text \<open>
  Claim C4. Whenever \<open>hash\<close> returns a credential for a password, \<open>verify\<close>
  of that password against that credential returns no error: the password
  verifies.
\<close>

theorem verify_accepts_own_hash:
  assumes "hash f cost salt p = Inr h"
  shows "verify f p h = None"
  using verify_hash [OF assms, of p] by simp

theorem verify_accepts_own_hash_witness:
  "hash example_kdf 10 ''0123456789abcdefghijkl'' ''longpassword1''
     = Inr ''$2a$10$0123456789abcdefghijkllongpassword10123456789abcdefgh''
   \<and> verify example_kdf ''longpassword1''
         ''$2a$10$0123456789abcdefghijkllongpassword10123456789abcdefgh'' = None"
proof -
  have h: "hash example_kdf 10 ''0123456789abcdefghijkl'' ''longpassword1''
     = Inr ''$2a$10$0123456789abcdefghijkllongpassword10123456789abcdefgh''"
    by code_simp
  from verify_accepts_own_hash [OF h] h show ?thesis by simp
qed

end
